theory Spec2Isabelle
  imports Complex_Main "HOL-Library.Sublist"
begin

section \<open>Python text primitives used by the pipeline\<close>

text \<open>
  Python strings are modelled as \<open>string\<close>, a character being a code point below 256
  (Latin-1). \<open>py_isspace\<close> is the whitespace \<open>str.strip()\<close> removes: tab, line feed,
  vertical tab, form feed, carriage return, the four separators \<open>0x1c\<close>..\<open>0x1f\<close>, the
  space, the next-line character \<open>0x85\<close> and the no-break space \<open>0xa0\<close>. \<open>lower_char\<close>
  is \<open>str.lower()\<close> on one character: \<open>A\<close>..\<open>Z\<close> and the capital letters
  \<open>0xc0\<close>..\<open>0xde\<close> (the multiplication sign \<open>0xd7\<close> apart) move up by 32, every
  other character stays.
\<close>

definition py_isspace :: "char \<Rightarrow> bool" where
  "py_isspace c = ((9 \<le> (of_char c :: nat) \<and> (of_char c :: nat) \<le> 13)
                 \<or> (28 \<le> (of_char c :: nat) \<and> (of_char c :: nat) \<le> 32)
                 \<or> (of_char c :: nat) = 133
                 \<or> (of_char c :: nat) = 160)"

definition lower_char :: "char \<Rightarrow> char" where
  "lower_char c = (if (65 \<le> (of_char c :: nat) \<and> (of_char c :: nat) \<le> 90)
                      \<or> (192 \<le> (of_char c :: nat) \<and> (of_char c :: nat) \<le> 222
                          \<and> (of_char c :: nat) \<noteq> 215)
                   then char_of ((of_char c :: nat) + 32) else c)"

definition py_lower :: "string \<Rightarrow> string" where
  "py_lower s = map lower_char s"

definition py_strip :: "string \<Rightarrow> string" where
  "py_strip s = rev (dropWhile py_isspace (rev (dropWhile py_isspace s)))"

text \<open>\<open>s.replace(' ', '_')\<close>: every space character becomes an underscore.\<close>

definition replace_space :: "string \<Rightarrow> string" where
  "replace_space s = map (\<lambda>c. if c = CHR '' '' then CHR ''_'' else c) s"

text \<open>\<open>sub in s\<close> on strings: \<open>sub\<close> occurs in \<open>s\<close> as a contiguous block.\<close>

fun starts_with :: "string \<Rightarrow> string \<Rightarrow> bool" where
  "starts_with [] s = True"
| "starts_with (p # ps) [] = False"
| "starts_with (p # ps) (c # cs) = (p = c \<and> starts_with ps cs)"

fun py_in :: "string \<Rightarrow> string \<Rightarrow> bool" where
  "py_in sub [] = (sub = [])"
| "py_in sub (c # cs) = (starts_with sub (c # cs) \<or> py_in sub cs)"

text \<open>Decimal text of an integer, as \<open>str\<close> prints it.\<close>

function str_nat :: "nat \<Rightarrow> string" where
  "str_nat n = (if n < 10 then [char_of (48 + n)]
                else str_nat (n div 10) @ [char_of (48 + n mod 10)])"
  by pat_completeness auto
termination
  by (relation "measure id") auto

definition str_int :: "int \<Rightarrow> string" where
  "str_int i = (if i < 0 then CHR ''-'' # str_nat (nat (- i)) else str_nat (nat i))"

section \<open>Cells, frames\<close>

text \<open>
  A cell of a pandas frame. \<open>NaN\<close> is the blank cell (what \<open>dropna\<close> drops and what
  the parsers put in an empty field). \<open>Other\<close> stands for any other non-null Python
  value (a float such as \<open>1.0\<close>, a timestamp); it carries the text \<open>str()\<close> prints
  for the value, which is the only way the pipeline ever reads it.
\<close>

datatype cell = NaN | Str string | Integer int | Boolean bool | Other string

fun py_str :: "cell \<Rightarrow> string" where
  "py_str NaN = ''nan''"
| "py_str (Str s) = s"
| "py_str (Integer i) = str_int i"
| "py_str (Boolean b) = (if b then ''True'' else ''False'')"
| "py_str (Other s) = s"

section \<open>Engagement level\<close>

text \<open>\<open>map_engagement_level\<close>, lines 37-45.\<close>

definition map_engagement_level :: "cell \<Rightarrow> nat" where
  "map_engagement_level stage =
     (let stage = py_lower (py_strip (py_str stage)) in
      if py_in ''untouch'' stage then 0
      else if py_in ''free'' stage then 1
      else if py_in ''direct'' stage \<or> py_in ''da-d'' stage then 2
      else if py_in ''lite'' stage then 3
      else if py_in ''full'' stage then 4
      else 0)"

section \<open>Failures\<close>

text \<open>
  Exceptions are values. \<open>Library_error\<close> is an exception raised inside a library call
  (base64, the pandas parsers), with the text \<open>str(e)\<close> gives. \<open>Unmodelled\<close> marks the
  one situation this development does not follow pandas into: a later step reading a
  label that several columns of the frame carry.
\<close>

datatype failure = KeyError | AttributeError | ValueError | Library_error string | Unmodelled

section \<open>Frames\<close>

text \<open>
  A frame is its column labels, in order (duplicates allowed, as in pandas), and its
  rows; a row holds one cell per column, in column order. The labels of a parsed frame
  are cells (a spreadsheet header may be a number); after \<open>clean_column_names\<close> they are
  strings.
\<close>

record 'l frame =
  columns :: "'l list"
  rows :: "cell list list"

text \<open>The cell of a row under a label (the first column carrying it).\<close>

definition cell_at :: "'l list \<Rightarrow> cell list \<Rightarrow> 'l \<Rightarrow> cell" where
  "cell_at cols row col = (case map_of (zip cols row) col of Some v \<Rightarrow> v | None \<Rightarrow> NaN)"

text \<open>\<open>df.empty\<close>: some axis has length 0.\<close>

definition frame_empty :: "'l frame \<Rightarrow> bool" where
  "frame_empty df = (columns df = [] \<or> rows df = [])"

text \<open>
  Rewriting the cells of a row label by label: the cell under label \<open>c\<close> becomes
  \<open>f c\<close> of it. The row keeps its length.
\<close>

fun map_cells :: "('l \<Rightarrow> cell \<Rightarrow> cell) \<Rightarrow> 'l list \<Rightarrow> cell list \<Rightarrow> cell list" where
  "map_cells f (c # cols) (x # row) = f c x # map_cells f cols row"
| "map_cells f cols row = row"

text \<open>
  \<open>df[label] = series\<close>: a new label is appended as the last column; an existing label
  has every column carrying it overwritten.
\<close>

definition set_column :: "string \<Rightarrow> cell list \<Rightarrow> string frame \<Rightarrow> string frame" where
  "set_column label series df =
     (if label \<in> set (columns df)
      then df\<lparr>rows := map2 (\<lambda>row v. map_cells (\<lambda>c x. if c = label then v else x) (columns df) row)
                           (rows df) series\<rparr>
      else df\<lparr>columns := columns df @ [label],
              rows := map2 (\<lambda>row v. row @ [v]) (rows df) series\<rparr>)"

text \<open>
  \<open>df[col]\<close> used as a Series of text (\<open>.astype(str).str\<close>): a missing label raises
  \<open>KeyError\<close>; a label carried by several columns selects a DataFrame, which has no
  \<open>.str\<close> accessor, so the access raises \<open>AttributeError\<close>.
\<close>

definition series_of :: "string frame \<Rightarrow> string \<Rightarrow> failure + cell list" where
  "series_of df col =
     (if col \<notin> set (columns df) then Inl KeyError
      else if count_list (columns df) col > 1 then Inl AttributeError
      else Inr (map (\<lambda>row. cell_at (columns df) row col) (rows df)))"

section \<open>Encoding detector\<close>

text \<open>
  The result of \<open>chardet.detect\<close>. Python floats are modelled by rationals: the literal
  \<open>0.7\<close> is \<open>7/10\<close>, and a confidence equal to the float \<open>0.7\<close> is \<open>7/10\<close>; comparison
  of floats is exact, so the order is the one of the rationals.
\<close>

record guess =
  encoding :: "string option"
  confidence :: rat

text \<open>\<open>detect_encoding\<close>, lines 27-30; \<open>chardet\<close> is the guesser.\<close>

definition detect_encoding :: "(string \<Rightarrow> guess) \<Rightarrow> string \<Rightarrow> string option" where
  "detect_encoding chardet decoded_content =
     (let result = chardet decoded_content in
      if confidence result > 7 / 10 then encoding result else Some ''utf-8'')"

section \<open>Column normalizer\<close>

text \<open>
  \<open>clean_column_names\<close>, lines 32-35. \<open>col.strip()\<close> exists on text only: any other label
  raises \<open>AttributeError\<close>. Assigning \<open>df.columns\<close> relabels the columns in place; the
  cells are untouched.
\<close>

fun clean_label :: "cell \<Rightarrow> failure + string" where
  "clean_label (Str col) = Inr (replace_space (py_lower (py_strip col)))"
| "clean_label _ = Inl AttributeError"

fun clean_labels :: "cell list \<Rightarrow> failure + string list" where
  "clean_labels [] = Inr []"
| "clean_labels (col # cols) =
     (case clean_label col of
        Inl e \<Rightarrow> Inl e
      | Inr k \<Rightarrow> (case clean_labels cols of Inl e \<Rightarrow> Inl e | Inr ks \<Rightarrow> Inr (k # ks)))"

definition clean_column_names :: "cell frame \<Rightarrow> failure + string frame" where
  "clean_column_names df =
     (case clean_labels (columns df) of
        Inl e \<Rightarrow> Inl e
      | Inr ks \<Rightarrow> Inr \<lparr>columns = ks, rows = rows df\<rparr>)"

section \<open>Boolean-column inference\<close>

text \<open>
  Lines 68-75 of \<open>process_uploaded_data\<close>. \<open>column_is_boolean\<close> is the body of the
  \<open>try\<close>; the loop appends the label when the test holds and goes on to the next label
  when the body raises. (\<open>unique()\<close> is \<open>remdups\<close>: the test does not depend on the
  order of the distinct values.)
\<close>

definition boolean_vocabulary :: "string list" where
  "boolean_vocabulary = [''yes'', ''no'', ''y'', ''n'', ''1'', ''0'', ''true'', ''false'']"

definition column_is_boolean :: "string frame \<Rightarrow> string \<Rightarrow> failure + bool" where
  "column_is_boolean df col =
     (case series_of df col of
        Inl e \<Rightarrow> Inl e
      | Inr series \<Rightarrow>
          (let unique_vals = remdups (map (\<lambda>v. py_lower (py_strip (py_str v)))
                                          (filter (\<lambda>v. v \<noteq> NaN) series))
           in Inr (list_all (\<lambda>val. val \<in> set boolean_vocabulary) unique_vals)))"

fun value_columns_loop :: "string frame \<Rightarrow> string list \<Rightarrow> string list \<Rightarrow> string list" where
  "value_columns_loop df [] value_columns = value_columns"
| "value_columns_loop df (col # cols) value_columns =
     (case column_is_boolean df col of
        Inl e \<Rightarrow> value_columns_loop df cols value_columns
      | Inr b \<Rightarrow> (if b then value_columns_loop df cols (value_columns @ [col])
                  else value_columns_loop df cols value_columns))"

definition infer_value_columns :: "string frame \<Rightarrow> string list" where
  "infer_value_columns df = value_columns_loop df (columns df) []"

section \<open>Classifier\<close>

text \<open>
  \<open>process_data\<close>, lines 82-121. Lines 85-87 rewrite each value column in turn: the
  cell becomes its stripped lowercase text and then \<open>Yes\<close> or \<open>No\<close>.
\<close>

definition yes_no :: "cell \<Rightarrow> cell" where
  "yes_no v =
     (let x = py_lower (py_strip (py_str v)) in
      if x \<in> set [''yes'', ''y'', ''1'', ''true''] then Str ''Yes'' else Str ''No'')"

definition normalize_column :: "string \<Rightarrow> string frame \<Rightarrow> string frame" where
  "normalize_column col df =
     df\<lparr>rows := map (map_cells (\<lambda>c x. if c = col then yes_no x else x) (columns df)) (rows df)\<rparr>"

fun normalize_value_columns :: "string frame \<Rightarrow> string list \<Rightarrow> failure + string frame" where
  "normalize_value_columns df [] = Inr df"
| "normalize_value_columns df (col # cols) =
     (case series_of df col of
        Inl e \<Rightarrow> Inl e
      | Inr series \<Rightarrow> normalize_value_columns (normalize_column col df) cols)"

text \<open>
  Line 90: each value column is mapped through \<open>{'Yes': 1, 'No': 0}\<close> (any other cell
  becomes NaN, which the row sum skips) and the row is summed. Line 91 is \<open>max_score\<close>.
\<close>

definition yes_value :: "cell \<Rightarrow> nat" where
  "yes_value v = (if v = Str ''Yes'' then 1 else 0)"

definition value_score_of :: "string list \<Rightarrow> string list \<Rightarrow> cell list \<Rightarrow> nat" where
  "value_score_of cols value_columns row =
     sum_list (map (\<lambda>col. yes_value (cell_at cols row col)) value_columns)"

definition max_score_of :: "string list \<Rightarrow> nat" where
  "max_score_of value_columns = (if length value_columns = 0 then 1 else length value_columns)"

text \<open>
  Lines 100-118. \<open>np.select\<close> takes the choice of the first condition that holds and the
  default when none does. The thresholds are floats, modelled by rationals:
  \<open>max_score * 0.65\<close> is \<open>max_score * 65/100\<close>. (The float product differs from the
  rational one by a rounding error far smaller than \<open>1/20\<close>, and is exact where the
  rational one is a whole number, so comparing it with the whole number \<open>value_score\<close>
  gives the same answer.)
\<close>

fun np_select :: "bool list \<Rightarrow> 'a list \<Rightarrow> 'a \<Rightarrow> 'a" where
  "np_select (c # conds) (q # choices) d = (if c then q else np_select conds choices d)"
| "np_select _ _ d = d"

definition quadrant_conditions :: "nat \<Rightarrow> nat \<Rightarrow> nat \<Rightarrow> bool list" where
  "quadrant_conditions max_score value_score engagement_level =
     (let value_threshold = (of_nat max_score :: rat) * (65 / 100);
          engagement_threshold = (2 :: rat)
      in [of_nat value_score \<ge> value_threshold \<and> of_nat engagement_level \<ge> engagement_threshold,
          of_nat value_score < value_threshold \<and> of_nat engagement_level \<ge> engagement_threshold,
          of_nat value_score \<ge> value_threshold \<and> of_nat engagement_level < engagement_threshold,
          of_nat value_score < value_threshold \<and> of_nat engagement_level < engagement_threshold])"

definition quadrants :: "string list" where
  "quadrants =
     [''Strategic Partners'',
      ''Growth Opportunities'',
      ''High Value Prospects'',
      ''Basic Users'']"

definition quadrant_of :: "nat \<Rightarrow> nat \<Rightarrow> nat \<Rightarrow> string" where
  "quadrant_of max_score value_score engagement_level =
     np_select (quadrant_conditions max_score value_score engagement_level) quadrants
       ''Unclassified''"

text \<open>Line 119: \<open>np.clip(value_score * 12 + 25, 20, 60)\<close>.\<close>

definition size_of :: "nat \<Rightarrow> nat" where
  "size_of value_score = min 60 (max 20 (value_score * 12 + 25))"

text \<open>Line 94: the first label containing \<open>stage\<close> or \<open>subscription\<close>.\<close>

definition find_stage_col :: "string list \<Rightarrow> string option" where
  "find_stage_col cols = find (\<lambda>col. py_in ''stage'' col \<or> py_in ''subscription'' col) cols"

text \<open>
  The result of \<open>process_data\<close> is the frame and \<open>max_score\<close>. The four series assigned
  to the frame are returned on their own as well, one entry per record, so that a
  record's derived fields can be named without reading them back from the table.
\<close>

record classified =
  table :: "string frame"
  value_score :: "nat list"
  engagement_level :: "nat list"
  quadrant :: "string list"
  bubble_size :: "nat list"
  max_score :: nat

text \<open>
  Line 96 applies \<open>map_engagement_level\<close> to the stage column; a stage label carried by
  several columns is not followed (\<open>Unmodelled\<close>), and neither is a frame in which
  several columns are labelled \<open>value_score\<close> or \<open>engagement_level\<close>, the two derived
  columns that lines 105-108 read back.
\<close>

definition engagement_series :: "string frame \<Rightarrow> failure + nat list" where
  "engagement_series df =
     (case find_stage_col (columns df) of
        None \<Rightarrow> Inr (map (\<lambda>row. 0) (rows df))
      | Some stage_col \<Rightarrow>
          (if count_list (columns df) stage_col > 1 then Inl Unmodelled
           else Inr (map (\<lambda>row. map_engagement_level (cell_at (columns df) row stage_col))
                         (rows df))))"

definition process_data :: "string frame \<Rightarrow> string list \<Rightarrow> failure + classified" where
  "process_data df value_columns =
     (case normalize_value_columns df value_columns of
        Inl e \<Rightarrow> Inl e
      | Inr df1 \<Rightarrow>
          (let scores = map (value_score_of (columns df1) value_columns) (rows df1);
               df2 = set_column ''value_score'' (map (\<lambda>n. Integer (int n)) scores) df1;
               m = max_score_of value_columns
           in case engagement_series df2 of
                Inl e \<Rightarrow> Inl e
              | Inr levels \<Rightarrow>
                  (let df3 = set_column ''engagement_level'' (map (\<lambda>n. Integer (int n)) levels) df2
                   in if count_list (columns df3) ''value_score'' > 1
                         \<or> count_list (columns df3) ''engagement_level'' > 1
                      then Inl Unmodelled
                      else
                        (let quads = map2 (quadrant_of m) scores levels;
                             df4 = set_column ''quadrant'' (map Str quads) df3;
                             sizes = map size_of scores;
                             df5 = set_column ''size'' (map (\<lambda>n. Integer (int n)) sizes) df4
                         in Inr \<lparr>table = df5, value_score = scores, engagement_level = levels,
                                 quadrant = quads, bubble_size = sizes, max_score = m\<rparr>))))"

section \<open>Loader\<close>

text \<open>
  The libraries the loader calls are parameters: base64 decoding, the two pandas
  parsers (\<open>read_csv\<close> is given the detected encoding) and the \<open>chardet\<close> guesser. Each
  parser either raises or returns a frame. \<open>build_layout\<close> stands for lines 209-327 of
  \<open>handle_upload\<close>, which build the Dash components of the page.
\<close>

record 'l externals =
  b64decode :: "string \<Rightarrow> failure + string"
  read_excel :: "string \<Rightarrow> failure + cell frame"
  read_csv :: "string \<Rightarrow> string option \<Rightarrow> failure + cell frame"
  chardet_detect :: "string \<Rightarrow> guess"
  build_layout :: "classified \<Rightarrow> string option \<Rightarrow> failure + 'l"

text \<open>\<open>contents.split(',')\<close>, unpacked into exactly two names.\<close>

fun split_on :: "char \<Rightarrow> string \<Rightarrow> string list" where
  "split_on sep [] = [[]]"
| "split_on sep (c # cs) =
     (if c = sep then [] # split_on sep cs
      else (case split_on sep cs of
              [] \<Rightarrow> [[c]]
            | part # parts \<Rightarrow> (c # part) # parts))"

definition unpack2 :: "'a list \<Rightarrow> failure + ('a \<times> 'a)" where
  "unpack2 xs = (case xs of [a, b] \<Rightarrow> Inr (a, b) | _ \<Rightarrow> Inl ValueError)"

text \<open>The body of the \<open>try\<close>, lines 53-77.\<close>

definition load_table ::
  "'l externals \<Rightarrow> string \<Rightarrow> failure + (string frame \<times> string list \<times> cell list)" where
  "load_table ext contents =
     (case unpack2 (split_on CHR '','' contents) of
        Inl e \<Rightarrow> Inl e
      | Inr (content_type, content_string) \<Rightarrow>
     (case b64decode ext content_string of
        Inl e \<Rightarrow> Inl e
      | Inr decoded \<Rightarrow>
     (case (if starts_with [CHR ''P'', CHR ''K'', CHR 0x03, CHR 0x04] decoded
            then read_excel ext decoded
            else read_csv ext decoded (detect_encoding (chardet_detect ext) decoded)) of
        Inl e \<Rightarrow> Inl e
      | Inr df \<Rightarrow>
     (let original_columns = columns df in
      case clean_column_names df of
        Inl e \<Rightarrow> Inl e
      | Inr df_clean \<Rightarrow> Inr (df_clean, infer_value_columns df_clean, original_columns)))))"

text \<open>
  What \<open>process_uploaded_data\<close> returns: a tuple of two or of three values. The second
  value of a triple is the list of value columns, or the text
  \<open>f"Error processing file: {str(e)}"\<close>; \<open>not contents\<close> holds for \<open>None\<close> and for
  the empty string.
\<close>

datatype info = Value_columns "string list" | Error_processing_file failure

datatype loaded =
    Tuple2 "string frame option" string
  | Tuple3 "string frame option" info "cell list"

definition not_contents :: "string option \<Rightarrow> bool" where
  "not_contents contents = (case contents of None \<Rightarrow> True | Some c \<Rightarrow> c = [])"

definition process_uploaded_data ::
  "'l externals \<Rightarrow> string option \<Rightarrow> string option \<Rightarrow> loaded" where
  "process_uploaded_data ext contents filename =
     (case contents of
        None \<Rightarrow> Tuple2 None ''No file uploaded''
      | Some c \<Rightarrow>
          (if c = [] then Tuple2 None ''No file uploaded''
           else (case load_table ext c of
                   Inr (df_clean, value_columns, original_columns) \<Rightarrow>
                     Tuple3 (Some df_clean) (Value_columns value_columns) original_columns
                 | Inl e \<Rightarrow> Tuple3 None (Error_processing_file e) [])))"

text \<open>\<open>a, b, c = t\<close>: a tuple of two values cannot be unpacked into three names.\<close>

fun unpack3 :: "loaded \<Rightarrow> failure + (string frame option \<times> info \<times> cell list)" where
  "unpack3 (Tuple3 a b c) = Inr (a, b, c)"
| "unpack3 (Tuple2 a b) = Inl ValueError"

section \<open>Upload callback\<close>

text \<open>
  \<open>handle_upload\<close>, lines 197-327, returns one value per Dash output; \<open>no_update\<close>
  leaves the output as it is. The five last outputs are the stores of the page.
  \<open>Alert_danger i\<close> is \<open>dbc.Alert(f"Error: {i}", color="danger")\<close>; \<open>Alert_success\<close>
  carries the file name and the number of records.
\<close>

datatype 'a dash_output = No_update | Update 'a

datatype alert = Alert_danger info | Alert_success "string option" nat

record 'l outputs =
  upload_status :: "alert dash_output"
  main_content :: "'l dash_output"
  processed_data :: "string frame dash_output"
  value_columns_store :: "string list dash_output"
  max_value_score :: "nat dash_output"
  filename_store :: "string option dash_output"
  original_columns_store :: "cell list dash_output"

definition all_no_update :: "'l outputs" where
  "all_no_update =
     \<lparr>upload_status = No_update, main_content = No_update, processed_data = No_update,
      value_columns_store = No_update, max_value_score = No_update,
      filename_store = No_update, original_columns_store = No_update\<rparr>"

text \<open>Line 204: the alert, and \<open>no_update\<close> for the six other outputs.\<close>

definition error_outputs :: "info \<Rightarrow> 'l outputs" where
  "error_outputs value_columns =
     \<lparr>upload_status = Update (Alert_danger value_columns), main_content = No_update,
      processed_data = No_update, value_columns_store = No_update,
      max_value_score = No_update, filename_store = No_update,
      original_columns_store = No_update\<rparr>"

text \<open>
  Lines 206-327, reached with a frame that is not empty. (The loader never pairs a
  frame with an error text; the branch for it is there because the type allows it.)
\<close>

definition show_data ::
  "'l externals \<Rightarrow> string option \<Rightarrow> string frame \<Rightarrow> info \<Rightarrow> cell list \<Rightarrow> failure + 'l outputs" where
  "show_data ext filename df value_columns original_columns =
     (case value_columns of
        Error_processing_file e \<Rightarrow> Inl Unmodelled
      | Value_columns vcs \<Rightarrow>
     (case process_data df vcs of
        Inl e \<Rightarrow> Inl e
      | Inr processed \<Rightarrow>
     (case build_layout ext processed filename of
        Inl e \<Rightarrow> Inl e
      | Inr visualization_layout \<Rightarrow>
          Inr \<lparr>upload_status = Update (Alert_success filename (length (rows (table processed)))),
               main_content = Update visualization_layout,
               processed_data = Update (table processed),
               value_columns_store = Update vcs,
               max_value_score = Update (max_score processed),
               filename_store = Update filename,
               original_columns_store = Update original_columns\<rparr>)))"

text \<open>Lines 201-327: what the callback does once the guard of line 198 is passed.\<close>

definition after_guard ::
  "'l externals \<Rightarrow> string option \<Rightarrow> string option \<Rightarrow> failure + 'l outputs" where
  "after_guard ext contents filename =
     (case unpack3 (process_uploaded_data ext contents filename) of
        Inl e \<Rightarrow> Inl e
      | Inr (df, value_columns, original_columns) \<Rightarrow>
     (case df of
        None \<Rightarrow> Inr (error_outputs value_columns)
      | Some d \<Rightarrow>
          (if frame_empty d then Inr (error_outputs value_columns)
           else show_data ext filename d value_columns original_columns)))"

definition handle_upload ::
  "'l externals \<Rightarrow> string option \<Rightarrow> string option \<Rightarrow> failure + 'l outputs" where
  "handle_upload ext contents filename =
     (if not_contents contents then Inr all_no_update
      else after_guard ext contents filename)"

text \<open>
  The state the callback writes to, and the effect of its outputs on it: an output
  that is \<open>no_update\<close> keeps the stored value.
\<close>

record 'l page =
  status_shown :: "alert option"
  content_shown :: "'l option"
  processed_data_st :: "string frame option"
  value_columns_st :: "string list option"
  max_value_score_st :: "nat option"
  filename_st :: "string option option"
  original_columns_st :: "cell list option"

definition put :: "'a dash_output \<Rightarrow> 'a option \<Rightarrow> 'a option" where
  "put out old = (case out of No_update \<Rightarrow> old | Update v \<Rightarrow> Some v)"

definition apply_outputs :: "'l outputs \<Rightarrow> 'l page \<Rightarrow> 'l page" where
  "apply_outputs out st =
     \<lparr>status_shown = put (upload_status out) (status_shown st),
      content_shown = put (main_content out) (content_shown st),
      processed_data_st = put (processed_data out) (processed_data_st st),
      value_columns_st = put (value_columns_store out) (value_columns_st st),
      max_value_score_st = put (max_value_score out) (max_value_score_st st),
      filename_st = put (filename_store out) (filename_st st),
      original_columns_st = put (original_columns_store out) (original_columns_st st)\<rparr>"

section \<open>Reading a frame by label\<close>

text \<open>
  Every series a frame holds under a label, in column order: one per column that
  carries the label.
\<close>

definition series_under :: "'l \<Rightarrow> 'l frame \<Rightarrow> cell list list" where
  "series_under label df =
     map (\<lambda>j. map (\<lambda>row. row ! j) (rows df))
         (filter (\<lambda>j. columns df ! j = label) [0..<length (columns df)])"

section \<open>The specification's canonical key\<close>

text \<open>
  The canonical key of a label as the specification words it: trim the whitespace,
  lowercase, replace the spaces left inside by underscores.
\<close>

definition canonical_key :: "string \<Rightarrow> string" where
  "canonical_key label = replace_space (py_lower (py_strip label))"

section \<open>Example inputs\<close>

text \<open>Two answers of the guesser: a sure one, and one at the threshold.\<close>

definition sure_guesser :: "string \<Rightarrow> guess" where
  "sure_guesser content = \<lparr>encoding = Some ''ascii'', confidence = 1\<rparr>"

definition borderline_guesser :: "string \<Rightarrow> guess" where
  "borderline_guesser content = \<lparr>encoding = Some ''windows-1252'', confidence = 7 / 10\<rparr>"

text \<open>
  Two uploads: the text \<open>a,b\<close> / \<open>1,0\<close> (a header and one record) and the text \<open>a,b\<close>
  (a header and no record), with their base64 forms, and libraries that know them.
\<close>

definition csv_one_record :: string where
  "csv_one_record = ''a,b'' @ [CHR 0x0A] @ ''1,0'' @ [CHR 0x0A]"

definition csv_header_only :: string where
  "csv_header_only = ''a,b'' @ [CHR 0x0A]"

definition upload_one_record :: string where
  "upload_one_record = ''data:text/csv;base64,YSxiCjEsMAo=''"

definition upload_header_only :: string where
  "upload_header_only = ''data:text/csv;base64,YSxiCg==''"

definition example_externals :: "unit externals" where
  "example_externals =
     \<lparr>b64decode = (\<lambda>s. if s = ''YSxiCjEsMAo='' then Inr csv_one_record
                        else if s = ''YSxiCg=='' then Inr csv_header_only
                        else Inl (Library_error ''Incorrect padding'')),
      read_excel = (\<lambda>content. Inl (Library_error ''File is not a zip file'')),
      read_csv = (\<lambda>content enc.
                    if content = csv_one_record
                    then Inr \<lparr>columns = [Str ''a'', Str ''b''], rows = [[Integer 1, Integer 0]]\<rparr>
                    else if content = csv_header_only
                    then Inr \<lparr>columns = [Str ''a'', Str ''b''], rows = []\<rparr>
                    else Inl (Library_error ''No columns to parse from file'')),
      chardet_detect = sure_guesser,
      build_layout = (\<lambda>processed filename. Inr ())\<rparr>"

text \<open>A page that already shows the snapshot of an earlier upload.\<close>

definition earlier_page :: "unit page" where
  "earlier_page =
     \<lparr>status_shown = Some (Alert_success (Some ''march.csv'') 1),
      content_shown = Some (),
      processed_data_st = Some \<lparr>columns = [''a'', ''value_score''],
                                 rows = [[Str ''Yes'', Integer 1]]\<rparr>,
      value_columns_st = Some [''a''],
      max_value_score_st = Some 1,
      filename_st = Some (Some ''march.csv''),
      original_columns_st = Some [Str ''A'']\<rparr>"

text \<open>
  A cleaned frame with a text column, a yes/no column with a blank, a free-text column,
  two columns under the same label and a column that is blank throughout.
\<close>

definition mixed_frame :: "string frame" where
  "mixed_frame =
     \<lparr>columns = [''agency'', ''portal'', ''notes'', ''fax'', ''fax'', ''spare''],
      rows = [[Str ''Acme'', Str '' YES '', Str ''call back'', Integer 1, Str ''no'', NaN],
              [Str ''Bolt'', NaN, NaN, Integer 0, Str ''yes'', NaN],
              [Str ''Crow'', Boolean False, Str ''y'', Integer 1, Str ''no'', NaN]]\<rparr>"

text \<open>
  The specification's scenario: four boolean columns, one record with three \<open>Yes\<close>,
  stage value \<open>Orders 360 Full\<close>.
\<close>

definition scenario_frame :: "string frame" where
  "scenario_frame =
     \<lparr>columns = [''agency_name'', ''portal'', ''billing'', ''scheduling'', ''reports'', ''stage''],
      rows = [[Str ''Acme Home Health'', Str ''Yes'', Str ''Yes'', Str ''No'', Str ''Yes'',
               Str ''Orders 360 Full'']]\<rparr>"

definition scenario_result :: classified where
  "scenario_result =
     \<lparr>table =
        \<lparr>columns = [''agency_name'', ''portal'', ''billing'', ''scheduling'', ''reports'', ''stage'',
                    ''value_score'', ''engagement_level'', ''quadrant'', ''size''],
         rows = [[Str ''Acme Home Health'', Str ''Yes'', Str ''Yes'', Str ''No'', Str ''Yes'',
                  Str ''Orders 360 Full'', Integer 3, Integer 4, Str ''Strategic Partners'',
                  Integer 60]]\<rparr>,
      value_score = [3], engagement_level = [4], quadrant = [''Strategic Partners''],
      bubble_size = [60], max_score = 4\<rparr>"

text \<open>Four records of a table with two boolean columns, one for each quadrant.\<close>

definition four_frame :: "string frame" where
  "four_frame =
     \<lparr>columns = [''portal'', ''billing'', ''stage''],
      rows = [[Str ''Yes'', Str ''yes'', Str ''Orders 360 Full''],
              [Str ''No'', Str ''no'', Str ''Orders Lite''],
              [Str ''Y'', Str ''Yes'', Str ''Free trial''],
              [Str ''No'', Str ''Yes'', Str ''Untouched'']]\<rparr>"

definition four_result :: classified where
  "four_result =
     \<lparr>table =
        \<lparr>columns = [''portal'', ''billing'', ''stage'',
                    ''value_score'', ''engagement_level'', ''quadrant'', ''size''],
         rows = [[Str ''Yes'', Str ''Yes'', Str ''Orders 360 Full'',
                  Integer 2, Integer 4, Str ''Strategic Partners'', Integer 49],
                 [Str ''No'', Str ''No'', Str ''Orders Lite'',
                  Integer 0, Integer 3, Str ''Growth Opportunities'', Integer 25],
                 [Str ''Yes'', Str ''Yes'', Str ''Free trial'',
                  Integer 2, Integer 1, Str ''High Value Prospects'', Integer 49],
                 [Str ''No'', Str ''Yes'', Str ''Untouched'',
                  Integer 1, Integer 0, Str ''Basic Users'', Integer 37]]\<rparr>,
      value_score = [2, 0, 2, 1], engagement_level = [4, 3, 1, 0],
      quadrant = [''Strategic Partners'', ''Growth Opportunities'', ''High Value Prospects'',
                  ''Basic Users''],
      bubble_size = [49, 25, 49, 37], max_score = 2\<rparr>"

section \<open>The specification's distinct non-blank values\<close>

text \<open>
  The values of a column as the specification's inference rule reads them: the
  non-blank cells, trimmed and lowercased, as a set.
\<close>

definition nonblank_values :: "string frame \<Rightarrow> string \<Rightarrow> string set" where
  "nonblank_values df col =
     set (map (\<lambda>v. py_lower (py_strip (py_str v)))
              (filter (\<lambda>v. v \<noteq> NaN) (map (\<lambda>row. cell_at (columns df) row col) (rows df))))"

section \<open>The specification's engagement table\<close>

text \<open>
  The engagement mapping as the specification words it: an ordered table of keyword
  rules, the first rule with a keyword contained in the text wins, and the level is 0
  when no rule matches.
\<close>

definition engagement_rules :: "(string list \<times> nat) list" where
  "engagement_rules =
     [([''untouch''], 0), ([''free''], 1), ([''direct'', ''da-d''], 2), ([''lite''], 3), ([''full''], 4)]"

fun first_match :: "(string list \<times> nat) list \<Rightarrow> string \<Rightarrow> nat" where
  "first_match [] s = 0"
| "first_match ((keywords, level) # rules) s =
     (if list_ex (\<lambda>k. py_in k s) keywords then level else first_match rules s)"

section \<open>Text lemmas\<close>

lemma starts_with_prefix: "starts_with p s \<longleftrightarrow> prefix p s"
  by (induction p s rule: starts_with.induct) auto

lemma py_in_sublist: "py_in p s \<longleftrightarrow> sublist p s"
  by (induction s) (auto simp: starts_with_prefix sublist_Cons_right)

lemma isspace_lower_char: "py_isspace (lower_char c) = py_isspace c"
  by (auto simp: py_isspace_def lower_char_def)

lemma strip_lower_commute: "py_strip (py_lower s) = py_lower (py_strip s)"
proof -
  have comp: "py_isspace \<circ> lower_char = py_isspace"
    by (rule ext) (simp add: isspace_lower_char)
  show ?thesis
    by (simp add: py_strip_def py_lower_def dropWhile_map rev_map comp)
qed

lemma sublist_dropWhile_keep:
  assumes "p \<noteq> []" "\<not> P (hd p)" "sublist p s"
  shows "sublist p (dropWhile P s)"
  using assms(3)
proof (induction s)
  case Nil
  then show ?case by simp
next
  case (Cons c cs)
  show ?case
  proof (cases "P c")
    case True
    have "\<not> prefix p (c # cs)"
      using assms(1,2) True by (cases p) auto
    with Cons.prems have "sublist p cs"
      by (simp add: sublist_Cons_right)
    with Cons.IH True show ?thesis by simp
  next
    case False
    with Cons.prems show ?thesis by simp
  qed
qed

lemma sublist_strip_keep:
  assumes "p \<noteq> []" "\<not> py_isspace (hd p)" "\<not> py_isspace (last p)" "sublist p s"
  shows "sublist p (py_strip s)"
proof -
  have 1: "sublist p (dropWhile py_isspace s)"
    using assms by (intro sublist_dropWhile_keep)
  have "sublist (rev p) (dropWhile py_isspace (rev (dropWhile py_isspace s)))"
    using assms 1 by (intro sublist_dropWhile_keep) (auto simp: hd_rev)
  then show ?thesis
    by (simp add: py_strip_def sublist_rev_left)
qed

lemma sublist_strip: "sublist (py_strip s) s"
proof -
  have "sublist (dropWhile py_isspace (rev (dropWhile py_isspace s))) (rev (dropWhile py_isspace s))"
    by simp
  then have "sublist (py_strip s) (dropWhile py_isspace s)"
    by (simp add: py_strip_def sublist_rev_left del: sublist_dropWhile)
  then show ?thesis
    using sublist_dropWhile sublist_order.order.trans by blast
qed

lemma py_in_strip:
  assumes "p \<noteq> []" "\<not> py_isspace (hd p)" "\<not> py_isspace (last p)"
  shows "py_in p (py_strip s) = py_in p s"
  using assms sublist_strip_keep [of p s] sublist_strip [of s] sublist_order.order.trans
  unfolding py_in_sublist by blast

text \<open>A keyword test on the stripped lowercase text is the same test on the lowercase text.\<close>

lemma py_in_lower_strip:
  assumes "p \<noteq> []" "\<not> py_isspace (hd p)" "\<not> py_isspace (last p)"
  shows "py_in p (py_lower (py_strip s)) = py_in p (py_lower s)"
  using py_in_strip [OF assms, of "py_lower s"] by (simp add: strip_lower_commute)

lemma py_in_lower_mono:
  assumes "py_lower p = p" "py_in p s"
  shows "py_in p (py_lower s)"
  using assms map_mono_sublist [of p s lower_char]
  by (simp add: py_in_sublist py_lower_def)

lemma untouch_test:
  "py_in ''untouch'' (py_lower (py_strip s)) = py_in ''untouch'' (py_lower s)"
  by (rule py_in_lower_strip) (simp_all add: py_isspace_def)

lemma untouch_lower: "py_lower ''untouch'' = ''untouch''"
  by (simp add: py_lower_def lower_char_def)

section \<open>Engagement mapping: order of the tests\<close>

text \<open>
  C2. \<open>map_engagement_level\<close> is the specification's ordered first-match table applied
  to the stripped, lowercased text of the stage value. Consequently a stage value that
  contains both \<open>free\<close> and \<open>untouch\<close> (in any letter case, or literally) gets level 0,
  the result of the \<open>untouch\<close> test, which comes first.
\<close>

theorem map_engagement_level_first_match:
  "map_engagement_level v = first_match engagement_rules (py_lower (py_strip (py_str v)))
   \<and> (py_in ''free'' (py_lower (py_str v)) \<and> py_in ''untouch'' (py_lower (py_str v))
        \<longrightarrow> map_engagement_level v = 0)
   \<and> (py_in ''free'' (py_str v) \<and> py_in ''untouch'' (py_str v)
        \<longrightarrow> map_engagement_level v = 0)"
proof (intro conjI impI)
  show "map_engagement_level v = first_match engagement_rules (py_lower (py_strip (py_str v)))"
    by (simp add: map_engagement_level_def engagement_rules_def Let_def)
next
  assume "py_in ''free'' (py_lower (py_str v)) \<and> py_in ''untouch'' (py_lower (py_str v))"
  then have "py_in ''untouch'' (py_lower (py_strip (py_str v)))"
    by (simp only: untouch_test)
  then show "map_engagement_level v = 0"
    by (simp add: map_engagement_level_def Let_def)
next
  assume "py_in ''free'' (py_str v) \<and> py_in ''untouch'' (py_str v)"
  then have "py_in ''untouch'' (py_lower (py_str v))"
    using py_in_lower_mono [OF untouch_lower] by blast
  then have "py_in ''untouch'' (py_lower (py_strip (py_str v)))"
    by (simp only: untouch_test)
  then show "map_engagement_level v = 0"
    by (simp add: map_engagement_level_def Let_def)
qed

theorem map_engagement_level_first_match_witness:
  "py_in ''free'' (py_lower (py_str (Str ''Free trial (untouched) ''))) 
   \<and> py_in ''untouch'' (py_lower (py_str (Str ''Free trial (untouched) '')))
   \<and> py_in ''free'' (py_str (Str '' free, untouched'')) \<and> py_in ''untouch'' (py_str (Str '' free, untouched''))
   \<and> map_engagement_level (Str ''Free trial (untouched) '') = 0
   \<and> map_engagement_level (Str '' free, untouched'') = 0"
proof -
  have a: "py_in ''free'' (py_lower (py_str (Str ''Free trial (untouched) ''))) 
   \<and> py_in ''untouch'' (py_lower (py_str (Str ''Free trial (untouched) '')))"
    by code_simp
  have b: "py_in ''free'' (py_str (Str '' free, untouched'')) \<and> py_in ''untouch'' (py_str (Str '' free, untouched''))"
    by code_simp
  show ?thesis
    using a b map_engagement_level_first_match [of "Str ''Free trial (untouched) ''"]
      map_engagement_level_first_match [of "Str '' free, untouched''"]
    by blast
qed

section \<open>Encoding detector: the confidence threshold\<close>

text \<open>
  C5, amended. The detector returns the guess when the confidence is above 0.7 and
  \<open>utf-8\<close> when it is 0.7 or less; at a confidence of exactly 0.7 it returns \<open>utf-8\<close>.
  It is a total function, and its result is an encoding whenever the guesser names no
  encoding only together with confidence 0 (as \<open>chardet\<close> does).
\<close>

theorem detect_encoding_strict:
  "(confidence (chardet content) > 7 / 10 \<longrightarrow>
      detect_encoding chardet content = encoding (chardet content))
   \<and> (confidence (chardet content) \<le> 7 / 10 \<longrightarrow> detect_encoding chardet content = Some ''utf-8'')
   \<and> (confidence (chardet content) = 7 / 10 \<longrightarrow> detect_encoding chardet content = Some ''utf-8'')
   \<and> ((encoding (chardet content) = None \<longrightarrow> confidence (chardet content) = 0)
        \<longrightarrow> detect_encoding chardet content \<noteq> None)"
  by (auto simp: detect_encoding_def Let_def)

theorem detect_encoding_strict_witness:
  "confidence (sure_guesser ''abc'') > 7 / 10
   \<and> detect_encoding sure_guesser ''abc'' = Some ''ascii''
   \<and> confidence (borderline_guesser ''abc'') \<le> 7 / 10
   \<and> confidence (borderline_guesser ''abc'') = 7 / 10
   \<and> detect_encoding borderline_guesser ''abc'' = Some ''utf-8''
   \<and> encoding (sure_guesser ''abc'') \<noteq> None
   \<and> detect_encoding sure_guesser ''abc'' \<noteq> None"
  using detect_encoding_strict [of sure_guesser "''abc''"]
    detect_encoding_strict [of borderline_guesser "''abc''"]
  by (simp add: sure_guesser_def borderline_guesser_def)

text \<open>
  The claim as stated fails at the threshold: the confidence is not below 0.7, and the
  detector returns \<open>utf-8\<close>, not the guess.
\<close>

theorem detect_encoding_at_threshold:
  "\<not> confidence (borderline_guesser ''abc'') < 7 / 10
   \<and> detect_encoding borderline_guesser ''abc'' \<noteq> encoding (borderline_guesser ''abc'')
   \<and> detect_encoding borderline_guesser ''abc'' = Some ''utf-8''"
  by (simp add: detect_encoding_def borderline_guesser_def)

section \<open>Column normalizer: keys and collisions\<close>

lemma clean_labels_Str: "clean_labels (map Str labels) = Inr (map canonical_key labels)"
  by (induction labels) (simp_all add: canonical_key_def)

text \<open>
  C9, amended. Every text label is replaced by its canonical key, in place: the
  columns keep their order and their cells. Nothing is done about a collision: the
  frame then holds, under the shared key, the series of every column whose label has
  that key, the earlier ones as well as the later.
\<close>

theorem clean_column_names_keeps_all:
  "clean_column_names \<lparr>columns = map Str labels, rows = rs\<rparr>
     = Inr \<lparr>columns = map canonical_key labels, rows = rs\<rparr>
   \<and> series_under key \<lparr>columns = map canonical_key labels, rows = rs\<rparr>
     = map (\<lambda>j. map (\<lambda>row. row ! j) rs)
           (filter (\<lambda>j. canonical_key (labels ! j) = key) [0..<length labels])"
proof
  show "clean_column_names \<lparr>columns = map Str labels, rows = rs\<rparr>
     = Inr \<lparr>columns = map canonical_key labels, rows = rs\<rparr>"
    by (simp add: clean_column_names_def clean_labels_Str)
next
  have "filter (\<lambda>j. map canonical_key labels ! j = key) [0..<length labels]
      = filter (\<lambda>j. canonical_key (labels ! j) = key) [0..<length labels]"
    by (rule filter_cong) simp_all
  then show "series_under key \<lparr>columns = map canonical_key labels, rows = rs\<rparr>
     = map (\<lambda>j. map (\<lambda>row. row ! j) rs)
           (filter (\<lambda>j. canonical_key (labels ! j) = key) [0..<length labels])"
    by (simp add: series_under_def)
qed

text \<open>
  The claim as stated fails on the labels \<open>Plan\<close> and \<open> plan\<close>: both columns are there
  after the normalizer, under the key \<open>plan\<close>, and the values of the earlier one are
  retained next to those of the later one.
\<close>

theorem clean_column_names_collision:
  "clean_column_names \<lparr>columns = [Str ''Plan'', Str '' plan''], rows = [[Str ''old'', Str ''new'']]\<rparr>
     = Inr \<lparr>columns = [''plan'', ''plan''], rows = [[Str ''old'', Str ''new'']]\<rparr>
   \<and> series_under ''plan'' \<lparr>columns = [''plan'', ''plan''], rows = [[Str ''old'', Str ''new'']]\<rparr>
     = [[Str ''old''], [Str ''new'']]
   \<and> series_under ''plan'' \<lparr>columns = [''plan'', ''plan''], rows = [[Str ''old'', Str ''new'']]\<rparr>
     \<noteq> [[Str ''new'']]"
  by code_simp

section \<open>Boolean-column inference\<close>

lemma value_columns_loop_filter:
  "value_columns_loop df cols acc = acc @ filter (\<lambda>col. column_is_boolean df col = Inr True) cols"
  by (induction cols arbitrary: acc) (auto split: sum.splits)

lemma infer_value_columns_filter:
  "infer_value_columns df = filter (\<lambda>col. column_is_boolean df col = Inr True) (columns df)"
  by (simp add: infer_value_columns_def value_columns_loop_filter)

lemma count_list_one_member: "count_list xs x = 1 \<Longrightarrow> x \<in> set xs"
  by (metis count_list_0_iff zero_neq_one)

lemma series_of_unique:
  "count_list (columns df) col = 1 \<Longrightarrow>
   series_of df col = Inr (map (\<lambda>row. cell_at (columns df) row col) (rows df))"
  by (simp add: series_of_def count_list_one_member)

lemma series_of_Inr_iff:
  "(\<exists>series. series_of df col = Inr series) \<longleftrightarrow> count_list (columns df) col = 1"
proof
  assume "\<exists>series. series_of df col = Inr series"
  then have "col \<in> set (columns df)" "\<not> count_list (columns df) col > 1"
    by (auto simp: series_of_def split: if_splits)
  moreover from this have "count_list (columns df) col \<noteq> 0"
    by (simp add: count_list_0_iff)
  ultimately show "count_list (columns df) col = 1" by simp
next
  assume "count_list (columns df) col = 1"
  then show "\<exists>series. series_of df col = Inr series"
    by (simp add: series_of_unique)
qed

lemma column_is_boolean_unique:
  "count_list (columns df) col = 1 \<Longrightarrow>
   column_is_boolean df col = Inr (nonblank_values df col \<subseteq> set boolean_vocabulary)"
  by (auto simp: column_is_boolean_def series_of_unique nonblank_values_def Let_def list_all_iff)

lemma column_is_boolean_duplicate:
  "count_list (columns df) col > 1 \<Longrightarrow> column_is_boolean df col = Inl AttributeError"
proof -
  assume a: "count_list (columns df) col > 1"
  then have "col \<in> set (columns df)"
    by (metis count_list_0_iff less_nat_zero_code)
  with a show ?thesis
    by (simp add: column_is_boolean_def series_of_def)
qed

lemma column_is_boolean_Inr:
  "column_is_boolean df col = Inr b \<Longrightarrow> count_list (columns df) col = 1"
  using series_of_Inr_iff [of df col]
  by (auto simp: column_is_boolean_def split: sum.splits)

lemma infer_value_columns_unique:
  "col \<in> set (infer_value_columns df) \<Longrightarrow> count_list (columns df) col = 1"
  by (auto simp: infer_value_columns_filter dest: column_is_boolean_Inr)

text \<open>
  C4. Each column is judged on its own, and the loop always ends with a list. A column
  whose label no other column carries is in the Boolean Column Set if and only if its
  distinct trimmed, lowercased non-blank values all belong to the vocabulary; with no
  non-blank value at all it is in the set. The evaluation of a column raises when its
  label is carried by several columns, and that column is skipped.
\<close>

theorem boolean_column_set:
  "infer_value_columns df = filter (\<lambda>c. column_is_boolean df c = Inr True) (columns df)
   \<and> (count_list (columns df) col = 1 \<longrightarrow>
        (col \<in> set (infer_value_columns df)
           \<longleftrightarrow> nonblank_values df col \<subseteq> set boolean_vocabulary))
   \<and> (count_list (columns df) col = 1 \<and> nonblank_values df col = {} \<longrightarrow>
        col \<in> set (infer_value_columns df))
   \<and> (count_list (columns df) col > 1 \<longrightarrow>
        column_is_boolean df col = Inl AttributeError \<and> col \<notin> set (infer_value_columns df))"
proof (intro conjI impI)
  show "infer_value_columns df = filter (\<lambda>c. column_is_boolean df c = Inr True) (columns df)"
    by (rule infer_value_columns_filter)
next
  assume u: "count_list (columns df) col = 1"
  then show "col \<in> set (infer_value_columns df)
      \<longleftrightarrow> nonblank_values df col \<subseteq> set boolean_vocabulary"
    by (simp add: infer_value_columns_filter column_is_boolean_unique count_list_one_member)
next
  assume "count_list (columns df) col = 1 \<and> nonblank_values df col = {}"
  then show "col \<in> set (infer_value_columns df)"
    by (simp add: infer_value_columns_filter column_is_boolean_unique count_list_one_member)
next
  assume d: "count_list (columns df) col > 1"
  then show "column_is_boolean df col = Inl AttributeError"
    by (rule column_is_boolean_duplicate)
  then show "col \<notin> set (infer_value_columns df)"
    by (simp add: infer_value_columns_filter)
qed

theorem boolean_column_set_witness:
  "count_list (columns mixed_frame) ''portal'' = 1
   \<and> nonblank_values mixed_frame ''portal'' \<subseteq> set boolean_vocabulary
   \<and> ''portal'' \<in> set (infer_value_columns mixed_frame)
   \<and> count_list (columns mixed_frame) ''notes'' = 1
   \<and> \<not> nonblank_values mixed_frame ''notes'' \<subseteq> set boolean_vocabulary
   \<and> ''notes'' \<notin> set (infer_value_columns mixed_frame)
   \<and> count_list (columns mixed_frame) ''spare'' = 1
   \<and> nonblank_values mixed_frame ''spare'' = {}
   \<and> ''spare'' \<in> set (infer_value_columns mixed_frame)
   \<and> count_list (columns mixed_frame) ''fax'' > 1
   \<and> ''fax'' \<notin> set (infer_value_columns mixed_frame)"
proof -
  have a: "count_list (columns mixed_frame) ''portal'' = 1
      \<and> nonblank_values mixed_frame ''portal'' \<subseteq> set boolean_vocabulary"
    by code_simp
  have b: "count_list (columns mixed_frame) ''notes'' = 1
      \<and> \<not> nonblank_values mixed_frame ''notes'' \<subseteq> set boolean_vocabulary"
    by code_simp
  have c: "count_list (columns mixed_frame) ''spare'' = 1 \<and> nonblank_values mixed_frame ''spare'' = {}"
    by code_simp
  have d: "count_list (columns mixed_frame) ''fax'' > 1"
    by code_simp
  show ?thesis
    using a b c d boolean_column_set [of mixed_frame "''portal''"]
      boolean_column_set [of mixed_frame "''notes''"]
      boolean_column_set [of mixed_frame "''spare''"]
      boolean_column_set [of mixed_frame "''fax''"]
    by blast
qed

section \<open>Normalization of the value columns\<close>

lemma map_cells_id: "map_cells (\<lambda>c x. x) cols row = row"
  by (induction "(\<lambda>c x. x) :: 'a \<Rightarrow> cell \<Rightarrow> cell" cols row rule: map_cells.induct) simp_all

lemma map_cells_comp:
  "map_cells g cols (map_cells f cols row) = map_cells (\<lambda>c x. g c (f c x)) cols row"
  by (induction f cols row rule: map_cells.induct) simp_all

lemma yes_no_cases: "yes_no v = Str ''Yes'' \<or> yes_no v = Str ''No''"
  by (simp add: yes_no_def Let_def)

lemma yes_no_Yes: "yes_no (Str ''Yes'') = Str ''Yes''"
  by code_simp

lemma yes_no_No: "yes_no (Str ''No'') = Str ''No''"
  by code_simp

lemma yes_no_idem: "yes_no (yes_no v) = yes_no v"
  using yes_no_cases [of v] by (auto simp: yes_no_Yes yes_no_No)

lemma yes_no_NaN: "yes_no NaN = Str ''No''"
  by code_simp

lemma normalize_value_columns_pass:
  "\<forall>col \<in> set vcs. count_list (columns df) col = 1 \<Longrightarrow>
   normalize_value_columns df vcs =
     Inr \<lparr>columns = columns df,
          rows = map (map_cells (\<lambda>c x. if c \<in> set vcs then yes_no x else x) (columns df))
                     (rows df)\<rparr>"
proof (induction vcs arbitrary: df)
  case Nil
  then show ?case by (simp add: map_cells_id)
next
  case (Cons col cols)
  let ?df = "normalize_column col df"
  have cols: "columns ?df = columns df"
    by (simp add: normalize_column_def)
  have "\<forall>c \<in> set cols. count_list (columns ?df) c = 1"
    using Cons.prems by (simp add: cols)
  from Cons.IH [OF this]
  have "normalize_value_columns ?df cols =
     Inr \<lparr>columns = columns df,
          rows = map (map_cells (\<lambda>c x. if c \<in> set cols then yes_no x else x) (columns df))
                     (rows ?df)\<rparr>"
    by (simp add: cols)
  moreover have "series_of df col = Inr (map (\<lambda>row. cell_at (columns df) row col) (rows df))"
    using Cons.prems by (simp add: series_of_unique)
  moreover have "(\<lambda>c x. if c \<in> set cols then yes_no (if c = col then yes_no x else x)
                          else (if c = col then yes_no x else x))
               = (\<lambda>c x. if c \<in> set (col # cols) then yes_no x else x)"
    by (intro ext) (simp add: yes_no_idem)
  ultimately show ?case
    by (simp add: normalize_column_def map_cells_comp)
qed

lemma normalize_value_columns_shape:
  "normalize_value_columns df vcs = Inr df1 \<Longrightarrow>
   columns df1 = columns df \<and> length (rows df1) = length (rows df)"
proof (induction vcs arbitrary: df)
  case Nil
  then show ?case by simp
next
  case (Cons col cols)
  then have "normalize_value_columns (normalize_column col df) cols = Inr df1"
    by (simp split: sum.splits)
  from Cons.IH [OF this] show ?case
    by (simp add: normalize_column_def)
qed

lemma zip_map_cells:
  "zip cols (map_cells f cols row) = map (\<lambda>(c, x). (c, f c x)) (zip cols row)"
  by (induction f cols row rule: map_cells.induct) simp_all

lemma mixed_normalized:
  "normalize_value_columns mixed_frame (infer_value_columns mixed_frame)
     = Inr \<lparr>columns = [''agency'', ''portal'', ''notes'', ''fax'', ''fax'', ''spare''],
            rows = [[Str ''Acme'', Str ''Yes'', Str ''call back'', Integer 1, Str ''no'', Str ''No''],
                    [Str ''Bolt'', Str ''No'', NaN, Integer 0, Str ''yes'', Str ''No''],
                    [Str ''Crow'', Str ''No'', Str ''y'', Integer 1, Str ''no'', Str ''No'']]\<rparr>"
  by code_simp

text \<open>
  C3. The normalization loop, run on the Boolean Column Set, never raises: it returns
  the frame in which every cell of every boolean-like column has been replaced by
  \<open>yes_no\<close> of it and nothing else has changed. Every such cell is then \<open>Yes\<close> or
  \<open>No\<close>: \<open>Yes\<close> exactly when the trimmed lowercase text of the value is one of
  \<open>yes\<close>, \<open>y\<close>, \<open>1\<close>, \<open>true\<close>, and \<open>No\<close> for every other value, a blank one included.
\<close>

theorem boolean_normalization:
  "normalize_value_columns df (infer_value_columns df)
     = Inr \<lparr>columns = columns df,
            rows = map (map_cells (\<lambda>c x. if c \<in> set (infer_value_columns df) then yes_no x else x)
                                  (columns df))
                       (rows df)\<rparr>
   \<and> (\<forall>df'. normalize_value_columns df (infer_value_columns df) = Inr df' \<longrightarrow>
        (\<forall>row \<in> set (rows df'). \<forall>(c, x) \<in> set (zip (columns df') row).
           c \<in> set (infer_value_columns df) \<longrightarrow> x = Str ''Yes'' \<or> x = Str ''No''))
   \<and> (yes_no v = Str ''Yes'' \<or> yes_no v = Str ''No'')
   \<and> (yes_no v = Str ''Yes''
        \<longleftrightarrow> py_lower (py_strip (py_str v)) \<in> {''yes'', ''y'', ''1'', ''true''})
   \<and> yes_no NaN = Str ''No''"
proof (intro conjI allI impI)
  show pass: "normalize_value_columns df (infer_value_columns df)
     = Inr \<lparr>columns = columns df,
            rows = map (map_cells (\<lambda>c x. if c \<in> set (infer_value_columns df) then yes_no x else x)
                                  (columns df))
                       (rows df)\<rparr>"
    by (rule normalize_value_columns_pass) (simp add: infer_value_columns_unique)
  fix df'
  assume "normalize_value_columns df (infer_value_columns df) = Inr df'"
  with pass have df': "df' = \<lparr>columns = columns df,
            rows = map (map_cells (\<lambda>c x. if c \<in> set (infer_value_columns df) then yes_no x else x)
                                  (columns df))
                       (rows df)\<rparr>"
    by simp
  show "\<forall>row \<in> set (rows df'). \<forall>(c, x) \<in> set (zip (columns df') row).
           c \<in> set (infer_value_columns df) \<longrightarrow> x = Str ''Yes'' \<or> x = Str ''No''"
    by (auto simp: df' zip_map_cells) (metis yes_no_cases)
next
  show "yes_no v = Str ''Yes'' \<or> yes_no v = Str ''No''"
    by (rule yes_no_cases)
next
  show "yes_no v = Str ''Yes''
        \<longleftrightarrow> py_lower (py_strip (py_str v)) \<in> {''yes'', ''y'', ''1'', ''true''}"
    by (simp add: yes_no_def Let_def)
next
  show "yes_no NaN = Str ''No''"
    by (rule yes_no_NaN)
qed

theorem boolean_normalization_witness:
  "normalize_value_columns mixed_frame (infer_value_columns mixed_frame)
     = Inr \<lparr>columns = [''agency'', ''portal'', ''notes'', ''fax'', ''fax'', ''spare''],
            rows = [[Str ''Acme'', Str ''Yes'', Str ''call back'', Integer 1, Str ''no'', Str ''No''],
                    [Str ''Bolt'', Str ''No'', NaN, Integer 0, Str ''yes'', Str ''No''],
                    [Str ''Crow'', Str ''No'', Str ''y'', Integer 1, Str ''no'', Str ''No'']]\<rparr>
   \<and> [Str ''Bolt'', Str ''No'', NaN, Integer 0, Str ''yes'', Str ''No'']
       \<in> set [[Str ''Acme'', Str ''Yes'', Str ''call back'', Integer 1, Str ''no'', Str ''No''],
               [Str ''Bolt'', Str ''No'', NaN, Integer 0, Str ''yes'', Str ''No''],
               [Str ''Crow'', Str ''No'', Str ''y'', Integer 1, Str ''no'', Str ''No'']]
   \<and> (''portal'', Str ''No'')
       \<in> set (zip [''agency'', ''portal'', ''notes'', ''fax'', ''fax'', ''spare'']
                   [Str ''Bolt'', Str ''No'', NaN, Integer 0, Str ''yes'', Str ''No''])
   \<and> ''portal'' \<in> set (infer_value_columns mixed_frame)
   \<and> (Str ''No'' = Str ''Yes'' \<or> Str ''No'' = Str ''No'')"
proof -
  let ?row = "[Str ''Bolt'', Str ''No'', NaN, Integer 0, Str ''yes'', Str ''No'']"
  let ?R = "\<lparr>columns = [''agency'', ''portal'', ''notes'', ''fax'', ''fax'', ''spare''],
            rows = [[Str ''Acme'', Str ''Yes'', Str ''call back'', Integer 1, Str ''no'', Str ''No''],
                    ?row,
                    [Str ''Crow'', Str ''No'', Str ''y'', Integer 1, Str ''no'', Str ''No'']]\<rparr>"
  have m: "''portal'' \<in> set (infer_value_columns mixed_frame)"
    by code_simp
  have r: "?row \<in> set (rows ?R)"
    by simp
  have z: "(''portal'', Str ''No'') \<in> set (zip (columns ?R) ?row)"
    by simp
  have "\<forall>row \<in> set (rows ?R). \<forall>(c, x) \<in> set (zip (columns ?R) row).
           c \<in> set (infer_value_columns mixed_frame) \<longrightarrow> x = Str ''Yes'' \<or> x = Str ''No''"
    using mixed_normalized boolean_normalization [of mixed_frame NaN] by blast
  with r have "\<forall>(c, x) \<in> set (zip (columns ?R) ?row).
           c \<in> set (infer_value_columns mixed_frame) \<longrightarrow> x = Str ''Yes'' \<or> x = Str ''No''"
    by blast
  with z m have "Str ''No'' = Str ''Yes'' \<or> Str ''No'' = Str ''No''"
    by blast
  with m r z mixed_normalized show ?thesis
    by simp
qed

section \<open>The classifier, step by step\<close>

lemma value_score_of_count:
  "value_score_of cols vcs row = length (filter (\<lambda>col. cell_at cols row col = Str ''Yes'') vcs)"
  unfolding value_score_of_def by (induction vcs) (simp_all add: yes_value_def)

lemma value_score_of_le: "value_score_of cols vcs row \<le> length vcs"
  by (simp add: value_score_of_count)

lemma max_score_of_ge: "length vcs \<le> max_score_of vcs"
  by (simp add: max_score_of_def)

lemma length_rows_set_column:
  "length series = length (rows df) \<Longrightarrow> length (rows (set_column label series df)) = length (rows df)"
  by (simp add: set_column_def)

lemma columns_set_column:
  "columns (set_column label series df) =
     (if label \<in> set (columns df) then columns df else columns df @ [label])"
  by (simp add: set_column_def)

lemma engagement_series_length:
  "engagement_series df = Inr levels \<Longrightarrow> length levels = length (rows df)"
  by (auto simp: engagement_series_def split: option.splits if_splits)

lemma process_data_Inr:
  assumes "process_data df vcs = Inr out"
  shows "\<exists>df1. normalize_value_columns df vcs = Inr df1
          \<and> value_score out = map (value_score_of (columns df1) vcs) (rows df1)
          \<and> max_score out = max_score_of vcs
          \<and> length (engagement_level out) = length (rows df)
          \<and> quadrant out = map2 (quadrant_of (max_score_of vcs)) (value_score out) (engagement_level out)
          \<and> bubble_size out = map size_of (value_score out)"
proof -
  from assms obtain df1 where n: "normalize_value_columns df vcs = Inr df1"
    by (auto simp: process_data_def split: sum.splits)
  let ?scores = "map (value_score_of (columns df1) vcs) (rows df1)"
  let ?df2 = "set_column ''value_score'' (map (\<lambda>n. Integer (int n)) ?scores) df1"
  from assms n obtain levels where e: "engagement_series ?df2 = Inr levels"
    by (auto simp: process_data_def Let_def split: sum.splits)
  have len1: "length (rows df1) = length (rows df)"
    using normalize_value_columns_shape [OF n] by simp
  have "length (rows ?df2) = length (rows df1)"
    by (rule length_rows_set_column) simp
  with engagement_series_length [OF e] len1 have len: "length levels = length (rows df)"
    by simp
  from assms n e have "out = \<lparr>table = table out, value_score = ?scores, engagement_level = levels,
       quadrant = map2 (quadrant_of (max_score_of vcs)) ?scores levels,
       bubble_size = map size_of ?scores, max_score = max_score_of vcs\<rparr>"
    by (auto simp: process_data_def Let_def split: if_splits)
  then have "value_score out = ?scores" "engagement_level out = levels"
    "quadrant out = map2 (quadrant_of (max_score_of vcs)) ?scores levels"
    "bubble_size out = map size_of ?scores" "max_score out = max_score_of vcs"
    by (metis classified.select_convs(2), metis classified.select_convs(3),
        metis classified.select_convs(4), metis classified.select_convs(5),
        metis classified.select_convs(6))
  with n len show ?thesis by simp
qed

lemma quadrant_of_cases:
  "quadrant_of m v e =
     (if (of_nat v :: rat) \<ge> of_nat m * (65 / 100)
      then (if (of_nat e :: rat) \<ge> 2 then ''Strategic Partners'' else ''High Value Prospects'')
      else (if (of_nat e :: rat) \<ge> 2 then ''Growth Opportunities'' else ''Basic Users''))"
  by (simp add: quadrant_of_def quadrant_conditions_def quadrants_def Let_def not_le)

lemma quadrant_conditions_one:
  "length (filter (\<lambda>c. c) (quadrant_conditions m v e)) = 1"
  by (simp add: quadrant_conditions_def Let_def not_le)

lemma quadrant_of_named:
  "quadrant_of m v e \<in> set quadrants \<and> quadrant_of m v e \<noteq> ''Unclassified''"
  by (simp add: quadrant_of_cases quadrants_def)

lemma count_list_distinct:
  "distinct xs \<Longrightarrow> count_list xs x = (if x \<in> set xs then 1 else 0)"
  by (induction xs) auto

lemma distinct_set_column:
  "distinct (columns df) \<Longrightarrow> distinct (columns (set_column label series df))"
  by (simp add: columns_set_column)

lemma engagement_series_distinct:
  "distinct (columns df) \<Longrightarrow> \<exists>levels. engagement_series df = Inr levels"
  by (auto simp: engagement_series_def count_list_distinct split: option.splits)

lemma process_data_total:
  assumes d: "distinct (columns df)" and m: "set vcs \<subseteq> set (columns df)"
  shows "\<exists>out. process_data df vcs = Inr out"
proof -
  have "\<forall>col \<in> set vcs. count_list (columns df) col = 1"
    using d m by (auto simp: count_list_distinct)
  from normalize_value_columns_pass [OF this]
  obtain df1 where n: "normalize_value_columns df vcs = Inr df1" and c1: "columns df1 = columns df"
    by simp
  let ?scores = "map (value_score_of (columns df1) vcs) (rows df1)"
  let ?df2 = "set_column ''value_score'' (map (\<lambda>n. Integer (int n)) ?scores) df1"
  have d2: "distinct (columns ?df2)"
    using d c1 by (simp add: distinct_set_column)
  then obtain levels where e: "engagement_series ?df2 = Inr levels"
    using engagement_series_distinct by blast
  let ?df3 = "set_column ''engagement_level'' (map (\<lambda>n. Integer (int n)) levels) ?df2"
  have d3: "distinct (columns ?df3)"
    using d2 by (rule distinct_set_column)
  then have "\<not> (count_list (columns ?df3) ''value_score'' > 1
                \<or> count_list (columns ?df3) ''engagement_level'' > 1)"
    by (simp add: count_list_distinct)
  with n e show ?thesis
    by (simp add: process_data_def Let_def)
qed

lemma process_data_pipeline_total:
  "distinct (columns df) \<Longrightarrow> \<exists>out. process_data df (infer_value_columns df) = Inr out"
  by (rule process_data_total) (auto simp: infer_value_columns_filter)

lemma scenario_value_columns:
  "infer_value_columns scenario_frame = [''portal'', ''billing'', ''scheduling'', ''reports'']"
  by code_simp

lemma scenario_classified:
  "process_data scenario_frame (infer_value_columns scenario_frame) = Inr scenario_result"
  by code_simp

lemma four_classified:
  "process_data four_frame (infer_value_columns four_frame) = Inr four_result"
  by code_simp

section \<open>Value score\<close>

text \<open>
  C7. In every result of the classifier, \<open>max_score\<close> is the number of value columns,
  or 1 when there is none, and every record's \<open>value_score\<close> is the number of value
  columns whose normalized cell is \<open>Yes\<close>, which lies between 0 and \<open>max_score\<close>.
\<close>

theorem value_score_in_range:
  assumes "process_data df vcs = Inr out"
  shows "max_score out = (if vcs = [] then 1 else length vcs)
   \<and> length (value_score out) = length (rows df)
   \<and> (\<forall>v \<in> set (value_score out). 0 \<le> v \<and> v \<le> max_score out)
   \<and> (\<exists>df1. normalize_value_columns df vcs = Inr df1
        \<and> value_score out =
            map (\<lambda>row. length (filter (\<lambda>col. cell_at (columns df1) row col = Str ''Yes'') vcs))
                (rows df1))"
proof -
  from process_data_Inr [OF assms] obtain df1 where
    n: "normalize_value_columns df vcs = Inr df1" and
    s: "value_score out = map (value_score_of (columns df1) vcs) (rows df1)" and
    m: "max_score out = max_score_of vcs"
    by blast
  have "max_score out = (if vcs = [] then 1 else length vcs)"
    using m by (simp add: max_score_of_def)
  moreover have "length (value_score out) = length (rows df)"
    using s normalize_value_columns_shape [OF n] by simp
  moreover have "\<forall>v \<in> set (value_score out). 0 \<le> v \<and> v \<le> max_score out"
    using s m value_score_of_le [of "columns df1" vcs] max_score_of_ge [of vcs]
    by (auto intro: order_trans)
  moreover have "value_score out =
            map (\<lambda>row. length (filter (\<lambda>col. cell_at (columns df1) row col = Str ''Yes'') vcs))
                (rows df1)"
    using s by (simp add: value_score_of_count)
  ultimately show ?thesis
    using n by blast
qed

theorem value_score_in_range_witness:
  "process_data four_frame (infer_value_columns four_frame) = Inr four_result
   \<and> infer_value_columns four_frame = [''portal'', ''billing'']
   \<and> max_score four_result = 2
   \<and> value_score four_result = [2, 0, 2, 1]
   \<and> (1 :: nat) \<in> set (value_score four_result)
   \<and> (0 :: nat) \<le> 1 \<and> (1 :: nat) \<le> max_score four_result"
proof -
  have v: "infer_value_columns four_frame = [''portal'', ''billing'']"
    by code_simp
  have f: "max_score four_result = 2" "value_score four_result = [2, 0, 2, 1]"
    "(1 :: nat) \<in> set (value_score four_result)"
    by (simp_all add: four_result_def)
  have "\<forall>v \<in> set (value_score four_result). 0 \<le> v \<and> v \<le> max_score four_result"
    using value_score_in_range [OF four_classified] by blast
  with f(3) have "(0 :: nat) \<le> 1 \<and> (1 :: nat) \<le> max_score four_result"
    by blast
  with v f four_classified show ?thesis
    by blast
qed

section \<open>Quadrants\<close>

text \<open>
  C8. Whatever the score, the level and \<open>max_score\<close>, exactly one of the four
  conditions holds, so the quadrant is one of the four named ones and never the
  default. Every result of the classifier has one such quadrant per record, and the
  classifier does return a result on the Boolean Column Set of any frame whose labels
  are distinct.
\<close>

theorem quadrant_never_unclassified:
  "length (filter (\<lambda>c. c) (quadrant_conditions m v e)) = 1
   \<and> quadrant_of m v e \<in> set quadrants
   \<and> quadrant_of m v e \<noteq> ''Unclassified''
   \<and> (process_data df vcs = Inr out \<longrightarrow>
        length (quadrant out) = length (rows df)
        \<and> (\<forall>q \<in> set (quadrant out). q \<in> set quadrants \<and> q \<noteq> ''Unclassified''))
   \<and> (distinct (columns df) \<longrightarrow> (\<exists>out'. process_data df (infer_value_columns df) = Inr out'))"
proof (intro conjI impI)
  show "length (filter (\<lambda>c. c) (quadrant_conditions m v e)) = 1"
    by (rule quadrant_conditions_one)
  show "quadrant_of m v e \<in> set quadrants" "quadrant_of m v e \<noteq> ''Unclassified''"
    using quadrant_of_named by simp_all
next
  assume r: "process_data df vcs = Inr out"
  from process_data_Inr [OF r] obtain df1 where
    n: "normalize_value_columns df vcs = Inr df1" and
    s: "value_score out = map (value_score_of (columns df1) vcs) (rows df1)" and
    l: "length (engagement_level out) = length (rows df)" and
    q: "quadrant out = map2 (quadrant_of (max_score_of vcs)) (value_score out) (engagement_level out)"
    by blast
  show "length (quadrant out) = length (rows df)"
    using q s l normalize_value_columns_shape [OF n] by simp
  show "\<forall>q \<in> set (quadrant out). q \<in> set quadrants \<and> q \<noteq> ''Unclassified''"
    using quadrant_of_named by (subst q) (auto simp del: set_zip)
next
  assume "distinct (columns df)"
  then show "\<exists>out'. process_data df (infer_value_columns df) = Inr out'"
    by (rule process_data_pipeline_total)
qed

theorem quadrant_never_unclassified_witness:
  "process_data four_frame (infer_value_columns four_frame) = Inr four_result
   \<and> distinct (columns four_frame)
   \<and> length (quadrant four_result) = length (rows four_frame)
   \<and> ''Basic Users'' \<in> set (quadrant four_result)
   \<and> ''Basic Users'' \<in> set quadrants \<and> ''Basic Users'' \<noteq> ''Unclassified''
   \<and> (\<exists>out'. process_data four_frame (infer_value_columns four_frame) = Inr out')"
proof -
  have d: "distinct (columns four_frame)"
    by (simp add: four_frame_def)
  have b: "''Basic Users'' \<in> set (quadrant four_result)"
    by (simp add: four_result_def)
  note t = quadrant_never_unclassified [of 2 1 0 four_frame "infer_value_columns four_frame" four_result]
  from t four_classified have "length (quadrant four_result) = length (rows four_frame)"
    and "\<forall>q \<in> set (quadrant four_result). q \<in> set quadrants \<and> q \<noteq> ''Unclassified''"
    by blast+
  with b d four_classified show ?thesis
    by blast
qed

section \<open>Quadrant assignment\<close>

lemma four_fields:
  "value_score four_result = [2, 0, 2, 1]" "engagement_level four_result = [4, 3, 1, 0]"
  "max_score four_result = 2"
  by (simp_all add: four_result_def)

text \<open>
  C1. For every record of every result of the classifier, with
  \<open>value_threshold = max_score * 0.65\<close> and \<open>engagement_threshold = 2.0\<close>, the quadrant is
  given by the four-way table. The scenario: four boolean columns, three of them
  \<open>Yes\<close>, stage \<open>Orders 360 Full\<close> give score 3, threshold 2.6, level 4 and
  \<open>Strategic Partners\<close>.
\<close>

theorem quadrant_assignment:
  "(process_data df vcs = Inr out \<and> i < length (rows df) \<longrightarrow>
      (let value_threshold = (of_nat (max_score out) :: rat) * (65 / 100);
           engagement_threshold = (2 :: rat);
           v = (of_nat (value_score out ! i) :: rat);
           e = (of_nat (engagement_level out ! i) :: rat);
           q = quadrant out ! i
       in (v \<ge> value_threshold \<and> e \<ge> engagement_threshold \<longrightarrow> q = ''Strategic Partners'')
        \<and> (v < value_threshold \<and> e \<ge> engagement_threshold \<longrightarrow> q = ''Growth Opportunities'')
        \<and> (v \<ge> value_threshold \<and> e < engagement_threshold \<longrightarrow> q = ''High Value Prospects'')
        \<and> (v < value_threshold \<and> e < engagement_threshold \<longrightarrow> q = ''Basic Users'')))
   \<and> infer_value_columns scenario_frame = [''portal'', ''billing'', ''scheduling'', ''reports'']
   \<and> (\<exists>out'. process_data scenario_frame (infer_value_columns scenario_frame) = Inr out'
        \<and> value_score out' = [3] \<and> max_score out' = 4
        \<and> (of_nat (max_score out') :: rat) * (65 / 100) = 26 / 10
        \<and> engagement_level out' = [4] \<and> quadrant out' = [''Strategic Partners''])"
proof (intro conjI impI)
  assume a: "process_data df vcs = Inr out \<and> i < length (rows df)"
  then have r: "process_data df vcs = Inr out" and i: "i < length (rows df)"
    by simp_all
  from process_data_Inr [OF r] obtain df1 where
    n: "normalize_value_columns df vcs = Inr df1" and
    s: "value_score out = map (value_score_of (columns df1) vcs) (rows df1)" and
    m: "max_score out = max_score_of vcs" and
    l: "length (engagement_level out) = length (rows df)" and
    q: "quadrant out = map2 (quadrant_of (max_score_of vcs)) (value_score out) (engagement_level out)"
    by blast
  have ls: "length (value_score out) = length (rows df)"
    using s normalize_value_columns_shape [OF n] by simp
  have "quadrant out ! i
      = quadrant_of (max_score out) (value_score out ! i) (engagement_level out ! i)"
    using i l ls by (subst q) (simp add: m)
  then show "let value_threshold = (of_nat (max_score out) :: rat) * (65 / 100);
           engagement_threshold = (2 :: rat);
           v = (of_nat (value_score out ! i) :: rat);
           e = (of_nat (engagement_level out ! i) :: rat);
           q = quadrant out ! i
       in (v \<ge> value_threshold \<and> e \<ge> engagement_threshold \<longrightarrow> q = ''Strategic Partners'')
        \<and> (v < value_threshold \<and> e \<ge> engagement_threshold \<longrightarrow> q = ''Growth Opportunities'')
        \<and> (v \<ge> value_threshold \<and> e < engagement_threshold \<longrightarrow> q = ''High Value Prospects'')
        \<and> (v < value_threshold \<and> e < engagement_threshold \<longrightarrow> q = ''Basic Users'')"
    by (simp add: quadrant_of_cases Let_def)
next
  show "infer_value_columns scenario_frame = [''portal'', ''billing'', ''scheduling'', ''reports'']"
    by (rule scenario_value_columns)
next
  have "value_score scenario_result = [3] \<and> max_score scenario_result = 4
        \<and> (of_nat (max_score scenario_result) :: rat) * (65 / 100) = 26 / 10
        \<and> engagement_level scenario_result = [4]
        \<and> quadrant scenario_result = [''Strategic Partners'']"
    by (simp add: scenario_result_def)
  with scenario_classified
  show "\<exists>out'. process_data scenario_frame (infer_value_columns scenario_frame) = Inr out'
        \<and> value_score out' = [3] \<and> max_score out' = 4
        \<and> (of_nat (max_score out') :: rat) * (65 / 100) = 26 / 10
        \<and> engagement_level out' = [4] \<and> quadrant out' = [''Strategic Partners'']"
    by blast
qed

theorem quadrant_assignment_witness:
  "process_data four_frame (infer_value_columns four_frame) = Inr four_result
   \<and> length (rows four_frame) = 4
   \<and> (of_nat (max_score four_result) :: rat) * (65 / 100) = 13 / 10
   \<and> value_score four_result = [2, 0, 2, 1]
   \<and> engagement_level four_result = [4, 3, 1, 0]
   \<and> quadrant four_result ! 0 = ''Strategic Partners''
   \<and> quadrant four_result ! 1 = ''Growth Opportunities''
   \<and> quadrant four_result ! 2 = ''High Value Prospects''
   \<and> quadrant four_result ! 3 = ''Basic Users''"
proof -
  have len: "length (rows four_frame) = 4"
    by (simp add: four_frame_def)
  note t = quadrant_assignment [of four_frame "infer_value_columns four_frame" four_result]
  have "quadrant four_result ! 0 = ''Strategic Partners''"
    using t [of 0] four_classified len by (simp add: four_fields Let_def)
  moreover have "quadrant four_result ! 1 = ''Growth Opportunities''"
    using t [of 1] four_classified len by (simp add: four_fields Let_def)
  moreover have "quadrant four_result ! 2 = ''High Value Prospects''"
    using t [of 2] four_classified len by (simp add: four_fields Let_def)
  moreover have "quadrant four_result ! 3 = ''Basic Users''"
    using t [of 3] four_classified len by (simp add: four_fields Let_def)
  ultimately show ?thesis
    using four_classified len by (simp add: four_fields)
qed

section \<open>Loader and upload callback\<close>

lemma apply_all_no_update: "apply_outputs all_no_update st = st"
  by (simp add: apply_outputs_def all_no_update_def put_def)

lemma apply_error_outputs:
  "apply_outputs (error_outputs i) st = st\<lparr>status_shown := Some (Alert_danger i)\<rparr>"
  by (simp add: apply_outputs_def error_outputs_def put_def)

lemma loaded_empty:
  "not_contents contents \<Longrightarrow>
   process_uploaded_data ext contents filename = Tuple2 None ''No file uploaded''"
  by (auto simp: not_contents_def process_uploaded_data_def split: option.splits)

lemma loaded_nonempty:
  "\<not> not_contents contents \<Longrightarrow>
   process_uploaded_data ext contents filename =
     (case load_table ext (the contents) of
        Inr (df_clean, value_columns, original_columns) \<Rightarrow>
          Tuple3 (Some df_clean) (Value_columns value_columns) original_columns
      | Inl e \<Rightarrow> Tuple3 None (Error_processing_file e) [])"
  by (auto simp: not_contents_def process_uploaded_data_def split: option.splits)

lemma load_no_comma: "load_table example_externals ''abc'' = Inl ValueError"
  by (simp add: load_table_def unpack2_def)

lemma load_header_only:
  "load_table example_externals upload_header_only
     = Inr (\<lparr>columns = [''a'', ''b''], rows = []\<rparr>, [''a'', ''b''], [Str ''a'', Str ''b''])"
  by code_simp

text \<open>
  C10. Without contents the loader returns a tuple of two values, which cannot be
  unpacked into three names: the callback's code after its guard fails on it with
  \<open>ValueError\<close>, and the callback itself does not, because the guard returns first.
  With contents the loader returns a tuple of three values, whether the load succeeded
  or an exception was caught.
\<close>

theorem loader_return_shape:
  "(not_contents contents \<longrightarrow>
      process_uploaded_data ext contents filename = Tuple2 None ''No file uploaded''
      \<and> unpack3 (process_uploaded_data ext contents filename) = Inl ValueError
      \<and> after_guard ext contents filename = Inl ValueError
      \<and> handle_upload ext contents filename = Inr all_no_update)
   \<and> (\<not> not_contents contents \<longrightarrow>
      (\<exists>df value_columns original_columns.
         process_uploaded_data ext contents filename = Tuple3 df value_columns original_columns
         \<and> unpack3 (process_uploaded_data ext contents filename)
             = Inr (df, value_columns, original_columns))
      \<and> handle_upload ext contents filename = after_guard ext contents filename)"
proof (intro conjI impI)
  assume e: "not_contents contents"
  show "process_uploaded_data ext contents filename = Tuple2 None ''No file uploaded''"
    using e by (rule loaded_empty)
  then show "unpack3 (process_uploaded_data ext contents filename) = Inl ValueError"
    by simp
  then show "after_guard ext contents filename = Inl ValueError"
    by (simp add: after_guard_def)
  show "handle_upload ext contents filename = Inr all_no_update"
    using e by (simp add: handle_upload_def)
next
  assume n: "\<not> not_contents contents"
  show "\<exists>df value_columns original_columns.
         process_uploaded_data ext contents filename = Tuple3 df value_columns original_columns
         \<and> unpack3 (process_uploaded_data ext contents filename)
             = Inr (df, value_columns, original_columns)"
    by (cases "load_table ext (the contents)") (auto simp: loaded_nonempty [OF n])
  show "handle_upload ext contents filename = after_guard ext contents filename"
    using n by (simp add: handle_upload_def)
qed

theorem loader_return_shape_witness:
  "not_contents (Some '''')
   \<and> process_uploaded_data example_externals (Some '''') (Some ''agencies.csv'')
       = Tuple2 None ''No file uploaded''
   \<and> after_guard example_externals (Some '''') (Some ''agencies.csv'') = Inl ValueError
   \<and> handle_upload example_externals (Some '''') (Some ''agencies.csv'') = Inr all_no_update
   \<and> \<not> not_contents (Some upload_one_record)
   \<and> (\<exists>df value_columns original_columns.
         process_uploaded_data example_externals (Some upload_one_record) (Some ''agencies.csv'')
           = Tuple3 df value_columns original_columns)"
proof -
  have a: "not_contents (Some '''')"
    by (simp add: not_contents_def)
  have b: "\<not> not_contents (Some upload_one_record)"
    by (simp add: not_contents_def upload_one_record_def)
  show ?thesis
    using a b loader_return_shape [of "Some ''''" example_externals "Some ''agencies.csv''"]
      loader_return_shape [of "Some upload_one_record" example_externals "Some ''agencies.csv''"]
    by blast
qed

text \<open>
  A failed load changes no store. Without contents every output is \<open>no_update\<close>.
  When the loader yields no table (its \<open>try\<close> raised \<open>e\<close>) the callback returns the
  danger alert carrying \<open>Error processing file: e\<close>, and when the parsed table has no
  rows it returns the danger alert carrying the second value of the loader's triple,
  which is then the list of value columns; in both cases the six other outputs are
  \<open>no_update\<close>, so that the page content and the five stores keep their prior values.
\<close>

lemma load_failure_keeps_state:
  "(not_contents contents \<longrightarrow>
      handle_upload ext contents filename = Inr all_no_update \<and> apply_outputs all_no_update st = st)
   \<and> (c \<noteq> [] \<and> load_table ext c = Inl e \<longrightarrow>
      handle_upload ext (Some c) filename = Inr (error_outputs (Error_processing_file e)))
   \<and> (c \<noteq> [] \<and> load_table ext c = Inr (d, vcs, oc) \<and> rows d = [] \<longrightarrow>
      handle_upload ext (Some c) filename = Inr (error_outputs (Value_columns vcs)))
   \<and> status_shown (apply_outputs (error_outputs i) st) = Some (Alert_danger i)
   \<and> content_shown (apply_outputs (error_outputs i) st) = content_shown st
   \<and> processed_data_st (apply_outputs (error_outputs i) st) = processed_data_st st
   \<and> value_columns_st (apply_outputs (error_outputs i) st) = value_columns_st st
   \<and> max_value_score_st (apply_outputs (error_outputs i) st) = max_value_score_st st
   \<and> filename_st (apply_outputs (error_outputs i) st) = filename_st st
   \<and> original_columns_st (apply_outputs (error_outputs i) st) = original_columns_st st"
proof (intro conjI impI)
  assume "not_contents contents"
  then show "handle_upload ext contents filename = Inr all_no_update"
    by (simp add: handle_upload_def)
next
  show "apply_outputs all_no_update st = st"
    by (rule apply_all_no_update)
next
  assume "c \<noteq> [] \<and> load_table ext c = Inl e"
  then show "handle_upload ext (Some c) filename = Inr (error_outputs (Error_processing_file e))"
    by (simp add: handle_upload_def not_contents_def after_guard_def process_uploaded_data_def)
next
  assume "c \<noteq> [] \<and> load_table ext c = Inr (d, vcs, oc) \<and> rows d = []"
  then show "handle_upload ext (Some c) filename = Inr (error_outputs (Value_columns vcs))"
    by (simp add: handle_upload_def not_contents_def after_guard_def process_uploaded_data_def
        frame_empty_def)
qed (simp_all add: apply_error_outputs)

lemma load_failure_keeps_state_example:
  "not_contents None
   \<and> handle_upload example_externals None (Some ''agencies.csv'') = Inr all_no_update
   \<and> apply_outputs all_no_update earlier_page = earlier_page
   \<and> ''abc'' \<noteq> [] \<and> load_table example_externals ''abc'' = Inl ValueError
   \<and> handle_upload example_externals (Some ''abc'') (Some ''agencies.csv'')
       = Inr (error_outputs (Error_processing_file ValueError))
   \<and> upload_header_only \<noteq> []
   \<and> load_table example_externals upload_header_only
       = Inr (\<lparr>columns = [''a'', ''b''], rows = []\<rparr>, [''a'', ''b''], [Str ''a'', Str ''b''])
   \<and> rows \<lparr>columns = [''a'', ''b''], rows = []\<rparr> = []
   \<and> handle_upload example_externals (Some upload_header_only) (Some ''agencies.csv'')
       = Inr (error_outputs (Value_columns [''a'', ''b'']))
   \<and> processed_data_st (apply_outputs (error_outputs (Value_columns [''a'', ''b''])) earlier_page)
       = processed_data_st earlier_page
   \<and> max_value_score_st (apply_outputs (error_outputs (Value_columns [''a'', ''b''])) earlier_page)
       = max_value_score_st earlier_page"
proof -
  have a: "not_contents None"
    by (simp add: not_contents_def)
  have b: "upload_header_only \<noteq> []"
    by (simp add: upload_header_only_def)
  have c: "rows \<lparr>columns = [''a'', ''b''], rows = []\<rparr> = []"
    by simp
  note t1 = load_failure_keeps_state [where contents = None and ext = example_externals
      and filename = "Some ''agencies.csv''" and st = earlier_page and c = "''abc''"
      and e = ValueError and d = "\<lparr>columns = [''a'', ''b''], rows = []\<rparr>"
      and vcs = "[''a'', ''b'']" and oc = "[Str ''a'', Str ''b'']"
      and i = "Value_columns [''a'', ''b'']"]
  note t2 = load_failure_keeps_state [where contents = None and ext = example_externals
      and filename = "Some ''agencies.csv''" and st = earlier_page and c = upload_header_only
      and e = ValueError and d = "\<lparr>columns = [''a'', ''b''], rows = []\<rparr>"
      and vcs = "[''a'', ''b'']" and oc = "[Str ''a'', Str ''b'']"
      and i = "Value_columns [''a'', ''b'']"]
  show ?thesis
    using a b c load_no_comma load_header_only t1 t2 by blast
qed

text \<open>
  C6. The part of the claim about the stores holds (\<open>load_failure_keeps_state\<close>); the
  part about the message does not. Line 204 prints the second value of the loader's
  triple as the message of the alert. That is the text \<open>Error processing file: ...\<close>
  when the loader raised, as for the upload \<open>abc\<close>; for a parsed table with no rows it
  is the list of value columns, so the upload of the header \<open>a,b\<close> alone shows the
  alert \<open>Error: ['a', 'b']\<close>, which names no error. Without contents no alert is
  shown at all.
\<close>

theorem zero_rows_alert_lists_value_columns:
  "load_table example_externals upload_header_only
     = Inr (\<lparr>columns = [''a'', ''b''], rows = []\<rparr>, [''a'', ''b''], [Str ''a'', Str ''b''])
   \<and> handle_upload example_externals (Some upload_header_only) (Some ''agencies.csv'')
       = Inr (error_outputs (Value_columns [''a'', ''b'']))
   \<and> upload_status (error_outputs (Value_columns [''a'', ''b'']) :: unit outputs)
       = Update (Alert_danger (Value_columns [''a'', ''b'']))
   \<and> handle_upload example_externals (Some ''abc'') (Some ''agencies.csv'')
       = Inr (error_outputs (Error_processing_file ValueError))
   \<and> handle_upload example_externals None (Some ''agencies.csv'') = Inr all_no_update
   \<and> upload_status (all_no_update :: unit outputs) = No_update"
proof -
  have "handle_upload example_externals (Some upload_header_only) (Some ''agencies.csv'')
       = Inr (error_outputs (Value_columns [''a'', ''b'']))"
    using load_header_only
    by (simp add: handle_upload_def not_contents_def after_guard_def process_uploaded_data_def
        frame_empty_def upload_header_only_def)
  moreover have "handle_upload example_externals (Some ''abc'') (Some ''agencies.csv'')
       = Inr (error_outputs (Error_processing_file ValueError))"
    using load_no_comma
    by (simp add: handle_upload_def not_contents_def after_guard_def process_uploaded_data_def)
  moreover have "handle_upload example_externals None (Some ''agencies.csv'') = Inr all_no_update"
    by (simp add: handle_upload_def not_contents_def)
  ultimately show ?thesis
    using load_header_only by (simp add: error_outputs_def all_no_update_def)
qed

end
